theory Spec2Isabelle
  imports Complex_Main
begin

section \<open>Python values, exceptions and the state of the process\<close>

text \<open>
  The notebook \<^verbatim>\<open>QML/Research/VQE.ipynb\<close> is embedded function by function.
  A Python \<^verbatim>\<open>float\<close> is modelled as a \<^typ>\<open>real\<close> (IEEE rounding is not modelled), a
  Python \<^verbatim>\<open>int\<close> as an \<^typ>\<open>int\<close>. A NumPy array is a mutable object: a variable holds
  its address and the process state holds its contents, so that two names for one array
  see each other's writes.
\<close>

type_synonym addr = nat

datatype exn = AssertionError | ValueError | IndexError | EstimatorError

text \<open>
  The mutable state of the process. \<open>iteration_count\<close> is the module-level variable of
  line 88. \<open>est_state\<close> is whatever the estimator keeps between calls (the seed of its
  shot noise), \<open>est_calls\<close> counts the calls of \<^verbatim>\<open>estimator.run\<close> made so far,
  \<open>rng_pos\<close> the samples taken from NumPy's global generator, \<open>clock_pos\<close> the readings
  of \<^verbatim>\<open>time.time()\<close>, and \<open>stdout\<close> holds one entry per \<^verbatim>\<open>print\<close> call.
\<close>

record 'o world =
  iteration_count :: int
  arrays :: "addr \<Rightarrow> real list"
  est_state :: 'o
  est_calls :: nat
  rng_pos :: nat
  clock_pos :: nat
  stdout :: "string list"

subsection \<open>Printing\<close>

definition print :: "string \<Rightarrow> 'o world \<Rightarrow> 'o world" where
  "print s w = w\<lparr>stdout := stdout w @ [s]\<rparr>"

definition digit_char :: "nat \<Rightarrow> char" where
  "digit_char d = ''0123456789'' ! (d mod 10)"

fun str_nat :: "nat \<Rightarrow> string" where
  "str_nat n = (if n < 10 then [digit_char n] else str_nat (n div 10) @ [digit_char n])"

declare str_nat.simps [simp del]

definition str_int :: "int \<Rightarrow> string" where
  "str_int i = (if i < 0 then CHR ''-'' # str_nat (nat (- i)) else str_nat (nat i))"

section \<open>The ansatz (lines 41 to 89)\<close>

text \<open>
  A Qiskit \<^verbatim>\<open>Parameter\<close> is identified here by its name; the names built at line 42
  are pairwise distinct, so this agrees with Qiskit's identity of parameters. The name
  \<^verbatim>\<open>f'\<theta>{i}'\<close> starts with the two UTF-8 bytes of the Greek letter theta.
\<close>

datatype parameter = Parameter string

datatype instruction =
    RX parameter nat
  | RZ parameter nat
  | RY parameter nat
  | CX nat nat
  | Barrier

record quantum_circuit =
  num_qubits :: nat
  data :: "instruction list"

fun instruction_params :: "instruction \<Rightarrow> parameter list" where
  "instruction_params (RX p q) = [p]"
| "instruction_params (RZ p q) = [p]"
| "instruction_params (RY p q) = [p]"
| "instruction_params (CX c t) = []"
| "instruction_params Barrier = []"

text \<open>\<^verbatim>\<open>circuit.num_parameters\<close>: the number of distinct parameters in the circuit.\<close>

definition num_parameters :: "quantum_circuit \<Rightarrow> int" where
  "num_parameters c = int (length (remdups (concat (map instruction_params (data c)))))"

definition theta_name :: "nat \<Rightarrow> string" where
  "theta_name i = [CHR 0xCE, CHR 0xB8] @ str_nat i"

text \<open>Line 42: \<^verbatim>\<open>theta = [Parameter(f'\<theta>{i}') for i in range(num_params)]\<close>.\<close>

definition theta_list :: "int \<Rightarrow> parameter list" where
  "theta_list n = map (\<lambda>i. Parameter (theta_name i)) [0..<nat n]"

text \<open>
  \<^verbatim>\<open>uccsd_ansatz()\<close> reads \<^verbatim>\<open>theta[0]\<close> to \<^verbatim>\<open>theta[4]\<close>; an index beyond the
  list raises \<^verbatim>\<open>IndexError\<close>.
\<close>

definition uccsd_ansatz :: "parameter list \<Rightarrow> exn + quantum_circuit" where
  "uccsd_ansatz theta =
     (if length theta < 5 then Inl IndexError
      else Inr \<lparr>num_qubits = 2,
                data = [RX (theta ! 0) 0, RZ (theta ! 1) 0, RX (theta ! 2) 1,
                        RZ (theta ! 3) 1, CX 0 1, RY (theta ! 4) 1, CX 0 1, Barrier]\<rparr>)"

text \<open>
  The module-level names that the functions read and never assign: \<^verbatim>\<open>num_params\<close>
  (line 41) and \<^verbatim>\<open>ansatz_template\<close> (line 89).
\<close>

record globals =
  num_params :: int
  ansatz_template :: quantum_circuit

text \<open>Running the cells of lines 41 to 89 as shipped.\<close>

definition module_load :: "exn + globals" where
  "module_load =
     (case uccsd_ansatz (theta_list 5) of
        Inl e \<Rightarrow> Inl e
      | Inr circuit \<Rightarrow> Inr \<lparr>num_params = 5, ansatz_template = circuit\<rparr>)"

text \<open>Line 88, \<^verbatim>\<open>iteration_count = 0\<close>, executed once when the cell is run.\<close>

definition module_init :: "'o world \<Rightarrow> 'o world" where
  "module_init w = w\<lparr>iteration_count := 0\<rparr>"

section \<open>The imported parts\<close>

text \<open>
  What the notebook imports and does not define: the estimator primitive, the samples of
  \<^verbatim>\<open>np.random.rand\<close>, the clock, the formatting of floats and arrays, and SciPy's COBYLA.
  \<open>estimator_run s circuit hamiltonian values\<close> is one call of \<^verbatim>\<open>estimator.run\<close> on one
  circuit, one observable and one parameter vector, in estimator state \<open>s\<close>: the value it
  returns (\<open>None\<close> when it raises) and its new state; it may be stochastic through its state.
  COBYLA is a deterministic derivative-free method: what it does next is a function of
  the starting point and of the objective values it has seen. \<open>cobyla_next x0 es\<close> is
  either \<open>None\<close> (converged) or \<open>Some (a, v)\<close>: it writes the trial point \<open>v\<close> into the
  array at address \<open>a\<close> (a fresh array or a buffer it reuses) and calls the objective on
  that array. \<open>cobyla_result x0 es\<close> is the pair of \<^verbatim>\<open>result.x\<close> and \<^verbatim>\<open>result.fun\<close>.
\<close>

record ('h, 'o) externals =
  estimator_run :: "'o \<Rightarrow> quantum_circuit \<Rightarrow> 'h \<Rightarrow> real list \<Rightarrow> real option \<times> 'o"
  rand_stream :: "nat \<Rightarrow> real"
  time_stream :: "nat \<Rightarrow> real"
  cobyla_next :: "real list \<Rightarrow> real list \<Rightarrow> (addr \<times> real list) option"
  cobyla_result :: "real list \<Rightarrow> real list \<Rightarrow> real list \<times> real"
  fmt_6f :: "real \<Rightarrow> string"
  fmt_2f :: "real \<Rightarrow> string"
  str_array :: "real list \<Rightarrow> string"
  np_round3 :: "real list \<Rightarrow> real list"

section \<open>The objective function (lines 98 to 126)\<close>

text \<open>
  \<^verbatim>\<open>callback_dict\<close> is the dictionary built at line 152 with the two keys
  \<^verbatim>\<open>'params'\<close> and \<^verbatim>\<open>'energy'\<close>, each holding a list. The list under
  \<^verbatim>\<open>'params'\<close> holds the array objects that were appended, that is their addresses.
\<close>

record callback_dict =
  cb_params :: "addr list"
  cb_energy :: "real list"

text \<open>
  \<^verbatim>\<open>calculate_expectation(params, hamiltonian, estimator, callback_dict)\<close>.
  The result is the returned energy or the exception raised, with the dictionary and the
  process state as the call leaves them: an exception does not undo the increment of
  line 110.
\<close>

definition calculate_expectation ::
  "globals \<Rightarrow> ('h, 'o) externals \<Rightarrow> addr \<Rightarrow> 'h \<Rightarrow> callback_dict \<Rightarrow> 'o world
     \<Rightarrow> (exn + real) \<times> callback_dict \<times> 'o world" where
  "calculate_expectation G X params hamiltonian callback_dict w =
    (let w1 = w\<lparr>iteration_count := iteration_count w + 1\<rparr>;
         job = estimator_run X (est_state w1) (ansatz_template G) hamiltonian
                 (arrays w1 params);
         w2 = w1\<lparr>est_state := snd job, est_calls := Suc (est_calls w1)\<rparr>
     in case fst job of
          None \<Rightarrow> (Inl EstimatorError, callback_dict, w2)
        | Some expectation_value \<Rightarrow>
            (let cb1 = callback_dict\<lparr>cb_params := cb_params callback_dict @ [params]\<rparr>;
                 cb2 = cb1\<lparr>cb_energy := cb_energy cb1 @ [expectation_value]\<rparr>;
                 w3 = (if iteration_count w2 mod 10 = 0
                       then print (''Iteration: '' @ str_int (iteration_count w2)
                                   @ '', Energy: '' @ fmt_6f X expectation_value
                                   @ '', Params: ''
                                   @ str_array X (np_round3 X (arrays w2 params))) w2
                       else w2)
             in (Inr expectation_value, cb2, w3)))"

text \<open>The recorded parameter vectors, as a reader of the history sees them.\<close>

definition recorded_params :: "callback_dict \<Rightarrow> 'o world \<Rightarrow> real list list" where
  "recorded_params cb w = map (arrays w) (cb_params cb)"

text \<open>A write by the optimizer into the array at address \<open>a\<close>.\<close>

definition array_write :: "addr \<Rightarrow> real list \<Rightarrow> 'o world \<Rightarrow> 'o world" where
  "array_write a v w = w\<lparr>arrays := (arrays w)(a := v)\<rparr>"

section \<open>The optimizer driver (lines 135 to 167)\<close>

text \<open>
  \<^verbatim>\<open>np.random.rand(n)\<close> takes the next \<open>n\<close> samples of the global generator and
  raises \<^verbatim>\<open>ValueError\<close> for a negative \<open>n\<close>.
\<close>

definition np_random_rand ::
  "('h, 'o) externals \<Rightarrow> int \<Rightarrow> 'o world \<Rightarrow> (exn + real list) \<times> 'o world" where
  "np_random_rand X n w =
     (if n < 0 then (Inl ValueError, w)
      else (Inr (map (rand_stream X) [rng_pos w ..< rng_pos w + nat n]),
            w\<lparr>rng_pos := rng_pos w + nat n\<rparr>))"

definition time_time :: "('h, 'o) externals \<Rightarrow> 'o world \<Rightarrow> real \<times> 'o world" where
  "time_time X w = (time_stream X (clock_pos w), w\<lparr>clock_pos := Suc (clock_pos w)\<rparr>)"

text \<open>
  \<^verbatim>\<open>scipy.optimize.minimize(fun=calculate_expectation, x0, args, method="COBYLA",
  options={'maxiter': ...})\<close>: at most \<open>maxiter\<close> calls of the objective. The result is the
  exception that ended the loop, if any, the objective values returned to the optimizer
  so far, the dictionary and the state.
\<close>

fun minimize_loop ::
  "globals \<Rightarrow> ('h, 'o) externals \<Rightarrow> nat \<Rightarrow> real list \<Rightarrow> 'h \<Rightarrow> real list \<Rightarrow> callback_dict
     \<Rightarrow> 'o world \<Rightarrow> exn option \<times> real list \<times> callback_dict \<times> 'o world" where
  "minimize_loop G X 0 x0 hamiltonian es cb w = (None, es, cb, w)"
| "minimize_loop G X (Suc maxiter) x0 hamiltonian es cb w =
     (case cobyla_next X x0 es of
        None \<Rightarrow> (None, es, cb, w)
      | Some (a, v) \<Rightarrow>
          (case calculate_expectation G X a hamiltonian cb (array_write a v w) of
             (Inl e, cb', w') \<Rightarrow> (Some e, es, cb', w')
           | (Inr y, cb', w') \<Rightarrow>
               minimize_loop G X maxiter x0 hamiltonian (es @ [y]) cb' w'))"

text \<open>
  SciPy's \<^verbatim>\<open>OptimizeResult\<close>, with the attributes the notebook reads or sets:
  \<^verbatim>\<open>x\<close>, \<^verbatim>\<open>fun\<close> and, set at line 165, \<^verbatim>\<open>intermediate_info\<close>.
\<close>

record optimize_result =
  res_x :: "real list"
  res_fun :: real
  intermediate_info :: "callback_dict option"

definition minimize ::
  "globals \<Rightarrow> ('h, 'o) externals \<Rightarrow> real list \<Rightarrow> 'h \<Rightarrow> callback_dict \<Rightarrow> nat \<Rightarrow> 'o world
     \<Rightarrow> (exn + optimize_result) \<times> callback_dict \<times> 'o world" where
  "minimize G X x0 hamiltonian cb maxiter w =
     (case minimize_loop G X maxiter x0 hamiltonian [] cb w of
        (Some e, es, cb', w') \<Rightarrow> (Inl e, cb', w')
      | (None, es, cb', w') \<Rightarrow>
          (Inr \<lparr>res_x = fst (cobyla_result X x0 es), res_fun = snd (cobyla_result X x0 es),
                intermediate_info = None\<rparr>, cb', w'))"

text \<open>
  Lines 144 to 152 of \<^verbatim>\<open>vqe_optimization\<close>: everything before the clock is started.
  The result is the initial parameter vector and the new, empty dictionary.
\<close>

definition vqe_setup ::
  "globals \<Rightarrow> ('h, 'o) externals \<Rightarrow> 'o world
     \<Rightarrow> (exn + real list \<times> callback_dict) \<times> 'o world" where
  "vqe_setup G X w =
     (case np_random_rand X (num_params G) w of
        (Inl e, w1) \<Rightarrow> (Inl e, w1)
      | (Inr us, w1) \<Rightarrow>
          (let initial_params = map (\<lambda>u. u * 2 * pi) us;
               w2 = print (''Number of parameters in ansatz: ''
                           @ str_int (num_parameters (ansatz_template G))) w1;
               w3 = print (''Number of parameters for optimizer: ''
                           @ str_int (num_params G)) w2
           in if num_parameters (ansatz_template G) \<noteq> num_params G
              then (Inl AssertionError, w3)
              else (let w4 = print (''Initial parameters: '' @ str_array X initial_params) w3;
                        callback_dict = \<lparr>cb_params = [], cb_energy = []\<rparr>
                    in (Inr (initial_params, callback_dict), w4))))"

text \<open>\<^verbatim>\<open>vqe_optimization(hamiltonian, estimator)\<close>, lines 135 to 167.\<close>

definition vqe_optimization ::
  "globals \<Rightarrow> ('h, 'o) externals \<Rightarrow> 'h \<Rightarrow> 'o world
     \<Rightarrow> (exn + optimize_result) \<times> 'o world" where
  "vqe_optimization G X hamiltonian w =
     (case vqe_setup G X w of
        (Inl e, w4) \<Rightarrow> (Inl e, w4)
      | (Inr (initial_params, callback_dict), w4) \<Rightarrow>
          (let start = time_time X w4 in
           case minimize G X initial_params hamiltonian callback_dict 200 (snd start) of
             (Inl e, cb, w6) \<Rightarrow> (Inl e, w6)
           | (Inr result, cb, w6) \<Rightarrow>
               (let finish = time_time X w6;
                    w8 = print (CHR 0x0A # ''Optimization finished in ''
                                @ fmt_2f X (fst finish - fst start) @ '' seconds.'')
                               (snd finish)
                in (Inr (result\<lparr>intermediate_info := Some cb\<rparr>), w8))))"

text \<open>The wall-clock duration of a run that starts in state \<open>w\<close> and ends in \<open>w'\<close>.\<close>

definition elapsed :: "('h, 'o) externals \<Rightarrow> 'o world \<Rightarrow> 'o world \<Rightarrow> real" where
  "elapsed X w w' = time_stream X (clock_pos w' - 1) - time_stream X (clock_pos w)"

section \<open>The Hamiltonian and the exact reference (lines 27 and 234 to 239)\<close>

text \<open>
  Qiskit's \<^verbatim>\<open>SparsePauliOp\<close> and NumPy's \<^verbatim>\<open>eigh\<close> are modelled by what they
  compute over the complex numbers: the dense matrix of a weighted sum of Pauli strings,
  and the real eigenvalues of a matrix.
\<close>

type_synonym matrix = "complex list list"

definition pauli_matrix :: "char \<Rightarrow> matrix option" where
  "pauli_matrix c =
     (if c = CHR ''I'' then Some [[1, 0], [0, 1]]
      else if c = CHR ''X'' then Some [[0, 1], [1, 0]]
      else if c = CHR ''Y'' then Some [[0, - \<i>], [\<i>, 0]]
      else if c = CHR ''Z'' then Some [[1, 0], [0, - 1]]
      else None)"

definition kron :: "matrix \<Rightarrow> matrix \<Rightarrow> matrix" where
  "kron A B =
     concat (map (\<lambda>ra. map (\<lambda>rb. concat (map (\<lambda>a. map (\<lambda>b. a * b) rb) ra)) B) A)"

text \<open>The matrix of a label: the Kronecker product of its letters, left to right.\<close>

fun label_matrix :: "string \<Rightarrow> matrix option" where
  "label_matrix [] = Some [[1]]"
| "label_matrix (c # cs) =
     (case pauli_matrix c of
        None \<Rightarrow> None
      | Some P \<Rightarrow> (case label_matrix cs of None \<Rightarrow> None | Some M \<Rightarrow> Some (kron P M)))"

definition mat_add :: "matrix \<Rightarrow> matrix \<Rightarrow> matrix" where
  "mat_add A B = map2 (\<lambda>ra rb. map2 (+) ra rb) A B"

definition mat_scale :: "complex \<Rightarrow> matrix \<Rightarrow> matrix" where
  "mat_scale c A = map (map (\<lambda>a. c * a)) A"

definition zero_matrix :: "nat \<Rightarrow> matrix" where
  "zero_matrix n = replicate n (replicate n 0)"

type_synonym sparse_pauli_op = "(string \<times> complex) list"

text \<open>Lines 27 and 234.\<close>

definition pauli_list :: "(string \<times> real) list" where
  "pauli_list = [(''II'', - 0.81), (''ZZ'', 0.17), (''XX'', 0.045), (''YY'', - 0.045)]"

definition from_list :: "(string \<times> real) list \<Rightarrow> sparse_pauli_op" where
  "from_list ts = map (\<lambda>(l, c). (l, complex_of_real c)) ts"

definition hamiltonian_op :: sparse_pauli_op where
  "hamiltonian_op = from_list pauli_list"

fun sum_terms :: "matrix \<Rightarrow> sparse_pauli_op \<Rightarrow> matrix option" where
  "sum_terms acc [] = Some acc"
| "sum_terms acc ((l, c) # ts) =
     (case label_matrix l of
        None \<Rightarrow> None
      | Some M \<Rightarrow>
          if length M \<noteq> length acc then None
          else sum_terms (mat_add acc (mat_scale c M)) ts)"

text \<open>
  \<^verbatim>\<open>to_matrix()\<close>; \<open>None\<close> stands for the error Qiskit raises on an empty list, a
  letter outside I, X, Y, Z or labels of different lengths.
\<close>

definition to_matrix :: "sparse_pauli_op \<Rightarrow> matrix option" where
  "to_matrix op =
     (case op of
        [] \<Rightarrow> None
      | (l, c) # ts \<Rightarrow> sum_terms (zero_matrix (2 ^ length l)) op)"

definition mat_vec :: "matrix \<Rightarrow> complex list \<Rightarrow> complex list" where
  "mat_vec A v = map (\<lambda>row. sum_list (map2 (\<lambda>a x. a * x) row v)) A"

definition eigenvalue :: "matrix \<Rightarrow> complex \<Rightarrow> bool" where
  "eigenvalue A l \<longleftrightarrow>
     (\<exists>v. length v = length A \<and> v \<noteq> replicate (length A) 0
          \<and> mat_vec A v = map (\<lambda>x. l * x) v)"

text \<open>\<^verbatim>\<open>np.linalg.eigh\<close> returns the eigenvalues as reals.\<close>

definition eigh_values :: "matrix \<Rightarrow> real set" where
  "eigh_values A = {l. eigenvalue A (complex_of_real l)}"

text \<open>Lines 236 to 238: \<^verbatim>\<open>np.min\<close> of the eigenvalues of \<^verbatim>\<open>hamiltonian_op.to_matrix()\<close>.\<close>

definition exact_ground_state_energy :: "real option" where
  "exact_ground_state_energy = map_option (\<lambda>A. Min (eigh_values A)) (to_matrix hamiltonian_op)"

section \<open>A concrete instance\<close>

text \<open>
  A small instance of the imported parts, on which the functions above can be run: an
  exact estimator that returns the sum of the parameters and counts its calls in its
  state, a generator that always yields one half, a clock that advances by one second
  per reading, and an optimizer that evaluates the starting point and then one more
  point, both written into the same buffer at address 0.
\<close>

definition example_externals :: "(unit, nat) externals" where
  "example_externals =
     \<lparr>estimator_run = (\<lambda>s c h p. (Some (sum_list p), Suc s)),
      rand_stream = (\<lambda>i. 1 / 2),
      time_stream = (\<lambda>i. real i),
      cobyla_next = (\<lambda>x0 es. if length es = 0 then Some (0, x0)
                               else if length es = 1 then Some (0, map (\<lambda>x. x + 1) x0)
                               else None),
      cobyla_result = (\<lambda>x0 es. case es of [] \<Rightarrow> (x0, 0) | e # _ \<Rightarrow> (x0, e)),
      fmt_6f = (\<lambda>e. ''E''),
      fmt_2f = (\<lambda>t. ''T''),
      str_array = (\<lambda>v. ''A''),
      np_round3 = (\<lambda>v. v)\<rparr>"

text \<open>The same instance with a clock that runs three times as fast.\<close>

definition example_externals_fast_clock :: "(unit, nat) externals" where
  "example_externals_fast_clock = example_externals\<lparr>time_stream := (\<lambda>i. 3 * real i)\<rparr>"


text \<open>
  A family of instances indexed by the outcome \<open>\<omega>\<close> of a random experiment: every sample
  of the generator is \<open>\<omega>\<close> itself. \<open>example_prob\<close> weighs an event by the length of its
  part in \<open>[0, 1)\<close>, which is the uniform law on the events that are intervals.
\<close>

definition example_random_externals :: "real \<Rightarrow> (unit, nat) externals" where
  "example_random_externals \<omega> =
     example_externals\<lparr>rand_stream := (\<lambda>i. if 0 \<le> \<omega> \<and> \<omega> < 1 then \<omega> else 0)\<rparr>"

definition example_prob :: "real set \<Rightarrow> real" where
  "example_prob S =
     (if S \<inter> {0..<1} = {} then 0 else Sup (S \<inter> {0..<1}) - Inf (S \<inter> {0..<1}))"

definition example_world :: "nat world" where
  "example_world =
     \<lparr>iteration_count = 0, arrays = (\<lambda>a. []), est_state = 0, est_calls = 0,
      rng_pos = 0, clock_pos = 0, stdout = []\<rparr>"

definition empty_callback_dict :: callback_dict where
  "empty_callback_dict = \<lparr>cb_params = [], cb_energy = []\<rparr>"

text \<open>The value of \<open>module_load\<close>, written out.\<close>

definition shipped_globals :: globals where
  "shipped_globals =
     \<lparr>num_params = 5,
      ansatz_template =
        \<lparr>num_qubits = 2,
         data = [RX (Parameter (theta_name 0)) 0, RZ (Parameter (theta_name 1)) 0,
                 RX (Parameter (theta_name 2)) 1, RZ (Parameter (theta_name 3)) 1,
                 CX 0 1, RY (Parameter (theta_name 4)) 1, CX 0 1, Barrier]\<rparr>\<rparr>"

text \<open>
  The module after \<^verbatim>\<open>num_params\<close> has been reassigned to 4 without rebuilding the
  ansatz, as re-running the cell of line 41 alone would do.
\<close>

definition reassigned_globals :: globals where
  "reassigned_globals = shipped_globals\<lparr>num_params := 4\<rparr>"

section \<open>Basic facts about the objective function and the optimizer loop\<close>

lemma calculate_expectation_returns:
  "calculate_expectation G X a h cb w = (Inr y, cb', w') \<Longrightarrow>
     fst (estimator_run X (est_state w) (ansatz_template G) h (arrays w a)) = Some y
     \<and> cb_params cb' = cb_params cb @ [a] \<and> cb_energy cb' = cb_energy cb @ [y]
     \<and> iteration_count w' = iteration_count w + 1
     \<and> est_calls w' = Suc (est_calls w)
     \<and> arrays w' = arrays w
     \<and> est_state w' = snd (estimator_run X (est_state w) (ansatz_template G) h (arrays w a))
     \<and> rng_pos w' = rng_pos w \<and> clock_pos w' = clock_pos w"
  by (auto simp: calculate_expectation_def Let_def print_def split: option.splits if_splits)

lemma calculate_expectation_raises:
  "calculate_expectation G X a h cb w = (Inl e, cb', w') \<Longrightarrow>
     fst (estimator_run X (est_state w) (ansatz_template G) h (arrays w a)) = None \<and> e = EstimatorError
     \<and> cb' = cb
     \<and> iteration_count w' = iteration_count w + 1
     \<and> est_calls w' = Suc (est_calls w)
     \<and> arrays w' = arrays w \<and> stdout w' = stdout w
     \<and> rng_pos w' = rng_pos w \<and> clock_pos w' = clock_pos w"
  by (auto simp: calculate_expectation_def Let_def print_def split: option.splits if_splits)

lemma array_write_simps [simp]:
  "iteration_count (array_write a v w) = iteration_count w"
  "est_calls (array_write a v w) = est_calls w"
  "est_state (array_write a v w) = est_state w"
  "rng_pos (array_write a v w) = rng_pos w"
  "clock_pos (array_write a v w) = clock_pos w"
  "stdout (array_write a v w) = stdout w"
  "arrays (array_write a v w) = (arrays w)(a := v)"
  by (simp_all add: array_write_def)

text \<open>
  What a run of the optimizer loop leaves behind: \<open>ys\<close> are the values of the calls that
  returned, \<open>as\<close> the arrays they were made on; a call that raised is counted by the
  counter and by the estimator but leaves no record.
\<close>

lemma minimize_loop_effect:
  "minimize_loop G X n x0 h es cb w = (r, es', cb', w') \<Longrightarrow>
     (\<exists>ys as. es' = es @ ys \<and> cb_energy cb' = cb_energy cb @ ys
        \<and> cb_params cb' = cb_params cb @ as \<and> length as = length ys \<and> length ys \<le> n
        \<and> iteration_count w' = iteration_count w + int (length ys) + (if r = None then 0 else 1)
        \<and> est_calls w' = est_calls w + length ys + (if r = None then 0 else 1)
        \<and> rng_pos w' = rng_pos w \<and> clock_pos w' = clock_pos w)"
proof (induction n arbitrary: es cb w)
  case 0
  then show ?case by simp
next
  case (Suc n)
  show ?case
  proof (cases "cobyla_next X x0 es")
    case None
    with Suc.prems show ?thesis by simp
  next
    case (Some av)
    obtain a v where av: "av = (a, v)" by (cases av)
    obtain res cb1 w1 where
      ce: "calculate_expectation G X a h cb (array_write a v w) = (res, cb1, w1)"
      by (cases "calculate_expectation G X a h cb (array_write a v w)")
    show ?thesis
    proof (cases res)
      case (Inl e)
      from calculate_expectation_raises[OF ce[unfolded Inl]] Suc.prems Some av ce Inl
      show ?thesis by auto
    next
      case (Inr y)
      from Suc.prems Some av ce Inr
      have rec: "minimize_loop G X n x0 h (es @ [y]) cb1 w1 = (r, es', cb', w')" by simp
      from Suc.IH[OF rec] obtain ys as where
        ih: "es' = (es @ [y]) @ ys" "cb_energy cb' = cb_energy cb1 @ ys"
            "cb_params cb' = cb_params cb1 @ as" "length as = length ys" "length ys \<le> n"
            "iteration_count w' = iteration_count w1 + int (length ys) + (if r = None then 0 else 1)"
            "est_calls w' = est_calls w1 + length ys + (if r = None then 0 else 1)"
            "rng_pos w' = rng_pos w1" "clock_pos w' = clock_pos w1"
        by blast
      note st = calculate_expectation_returns[OF ce[unfolded Inr]]
      show ?thesis
        apply (rule exI[of _ "y # ys"], rule exI[of _ "a # as"])
        using ih st by simp
    qed
  qed
qed

section \<open>Basic facts about the optimizer driver\<close>

lemma vqe_setup_returns:
  "vqe_setup G X w = (Inr (x0, cb), w1) \<Longrightarrow>
     0 \<le> num_params G \<and> num_parameters (ansatz_template G) = num_params G
     \<and> x0 = map (\<lambda>u. u * 2 * pi) (map (rand_stream X) [rng_pos w ..< rng_pos w + nat (num_params G)])
     \<and> cb = \<lparr>cb_params = [], cb_energy = []\<rparr>
     \<and> iteration_count w1 = iteration_count w \<and> est_calls w1 = est_calls w
     \<and> rng_pos w1 = rng_pos w + nat (num_params G) \<and> clock_pos w1 = clock_pos w"
  by (auto simp: vqe_setup_def np_random_rand_def Let_def print_def split: if_splits)

lemma vqe_setup_raises:
  "vqe_setup G X w = (Inl e, w1) \<Longrightarrow>
     e = (if num_params G < 0 then ValueError else AssertionError)
     \<and> num_parameters (ansatz_template G) \<noteq> num_params G
     \<and> iteration_count w1 = iteration_count w \<and> est_calls w1 = est_calls w
     \<and> rng_pos w1 = rng_pos w + nat (num_params G) \<and> clock_pos w1 = clock_pos w"
  by (auto simp: vqe_setup_def np_random_rand_def Let_def print_def num_parameters_def split: if_splits)

lemma vqe_setup_raises_stdout:
  "vqe_setup G X w = (Inl e, w1) \<Longrightarrow>
     stdout w1 = stdout w @
       (if num_params G < 0 then []
        else [''Number of parameters in ansatz: ''
                @ str_int (num_parameters (ansatz_template G)),
              ''Number of parameters for optimizer: '' @ str_int (num_params G)])"
  by (auto simp: vqe_setup_def np_random_rand_def Let_def print_def split: if_splits)

lemma vqe_setup_mismatch:
  "num_parameters (ansatz_template G) \<noteq> num_params G \<Longrightarrow>
     \<exists>w1. vqe_setup G X w = (Inl (if num_params G < 0 then ValueError else AssertionError), w1)"
  by (auto simp: vqe_setup_def np_random_rand_def Let_def print_def split: if_splits)

lemma vqe_setup_match:
  "num_parameters (ansatz_template G) = num_params G \<Longrightarrow>
     \<exists>x0 cb w1. vqe_setup G X w = (Inr (x0, cb), w1)"
  by (auto simp: vqe_setup_def np_random_rand_def Let_def print_def num_parameters_def split: if_splits)

lemma vqe_optimization_raises_in_setup:
  "vqe_setup G X w = (Inl e, w1) \<Longrightarrow> vqe_optimization G X h w = (Inl e, w1)"
  by (simp add: vqe_optimization_def)

lemma time_time_simps [simp]:
  "fst (time_time X w) = time_stream X (clock_pos w)"
  "iteration_count (snd (time_time X w)) = iteration_count w"
  "est_calls (snd (time_time X w)) = est_calls w"
  "rng_pos (snd (time_time X w)) = rng_pos w"
  "clock_pos (snd (time_time X w)) = Suc (clock_pos w)"
  "stdout (snd (time_time X w)) = stdout w"
  by (simp_all add: time_time_def)

lemma vqe_optimization_returns:
  assumes run: "vqe_optimization G X h w = (Inr r, w')"
  shows "\<exists>es as.
           intermediate_info r = Some \<lparr>cb_params = as, cb_energy = es\<rparr>
         \<and> length as = length es \<and> length es \<le> 200
         \<and> res_x r = fst (cobyla_result X (map (\<lambda>u. u * 2 * pi)
              (map (rand_stream X) [rng_pos w ..< rng_pos w + nat (num_params G)])) es)
         \<and> res_fun r = snd (cobyla_result X (map (\<lambda>u. u * 2 * pi)
              (map (rand_stream X) [rng_pos w ..< rng_pos w + nat (num_params G)])) es)
         \<and> iteration_count w' = iteration_count w + int (length es)
         \<and> est_calls w' = est_calls w + length es
         \<and> rng_pos w' = rng_pos w + nat (num_params G)
         \<and> clock_pos w' = clock_pos w + 2
         \<and> stdout w' \<noteq> []
         \<and> last (stdout w') = CHR 0x0A # ''Optimization finished in ''
              @ fmt_2f X (time_stream X (Suc (clock_pos w)) - time_stream X (clock_pos w))
              @ '' seconds.''"
proof -
  obtain q w4 where s: "vqe_setup G X w = (q, w4)" by (cases "vqe_setup G X w")
  from run s obtain x0 cb where q: "q = Inr (x0, cb)"
    by (cases q) (auto simp: vqe_optimization_def)
  note su = vqe_setup_returns[OF s[unfolded q]]
  obtain m cb6 w6 where mi: "minimize G X x0 h cb 200 (snd (time_time X w4)) = (m, cb6, w6)"
    by (cases "minimize G X x0 h cb 200 (snd (time_time X w4))")
  from run s q mi obtain res where m: "m = Inr res"
    and r: "r = res\<lparr>intermediate_info := Some cb6\<rparr>"
    and w': "w' = print (CHR 0x0A # ''Optimization finished in ''
                @ fmt_2f X (fst (time_time X w6) - fst (time_time X w4)) @ '' seconds.'')
               (snd (time_time X w6))"
    by (cases m) (auto simp: vqe_optimization_def Let_def)
  obtain ro es cbl wl where
    lp: "minimize_loop G X 200 x0 h [] cb (snd (time_time X w4)) = (ro, es, cbl, wl)"
    by (cases "minimize_loop G X 200 x0 h [] cb (snd (time_time X w4))") auto
  from mi m lp have ro: "ro = None" and cbl: "cbl = cb6" and wl: "wl = w6"
    and res: "res = \<lparr>res_x = fst (cobyla_result X x0 es), res_fun = snd (cobyla_result X x0 es),
                      intermediate_info = None\<rparr>"
    by (auto simp: minimize_def split: option.splits)
  from minimize_loop_effect[OF lp] ro cbl wl su obtain as where
    e: "cb_energy cb6 = es" "cb_params cb6 = as" "length as = length es" "length es \<le> 200"
       "iteration_count w6 = iteration_count w + int (length es)"
       "est_calls w6 = est_calls w + length es"
       "rng_pos w6 = rng_pos w + nat (num_params G)" "clock_pos w6 = Suc (clock_pos w)"
    by auto
  have cb6: "cb6 = \<lparr>cb_params = as, cb_energy = es\<rparr>" using e(1,2) by (cases cb6) simp
  show ?thesis
    apply (rule exI[of _ es], rule exI[of _ as])
    using e su r res cb6 w' by (simp add: print_def)
qed

text \<open>
  With an estimator whose value does not depend on its state, what the optimizer sees and
  what is recorded do not depend on the state the loop starts from.
\<close>

lemma calculate_expectation_same_value:
  "fst (estimator_run X (est_state w1) (ansatz_template G) h (arrays w1 a))
     = fst (estimator_run X (est_state w2) (ansatz_template G) h (arrays w2 a)) \<Longrightarrow>
   fst (calculate_expectation G X a h cb w1) = fst (calculate_expectation G X a h cb w2)
   \<and> fst (snd (calculate_expectation G X a h cb w1)) = fst (snd (calculate_expectation G X a h cb w2))"
  by (simp add: calculate_expectation_def Let_def split: option.splits)

lemma minimize_loop_deterministic:
  assumes det: "\<And>s s' p. fst (estimator_run X s (ansatz_template G) h p)
                        = fst (estimator_run X s' (ansatz_template G) h p)"
  shows "minimize_loop G X n x0 h es cb w1 = (r1, es1, cb1, u1) \<Longrightarrow>
         minimize_loop G X n x0 h es cb w2 = (r2, es2, cb2, u2) \<Longrightarrow>
         r1 = r2 \<and> es1 = es2 \<and> cb1 = cb2"
proof (induction n arbitrary: es cb w1 w2)
  case 0
  then show ?case by simp
next
  case (Suc n)
  show ?case
  proof (cases "cobyla_next X x0 es")
    case None
    with Suc.prems show ?thesis by simp
  next
    case (Some av)
    obtain a v where av: "av = (a, v)" by (cases av)
    obtain q1 c1 v1 where
      ce1: "calculate_expectation G X a h cb (array_write a v w1) = (q1, c1, v1)"
      by (cases "calculate_expectation G X a h cb (array_write a v w1)")
    obtain q2 c2 v2 where
      ce2: "calculate_expectation G X a h cb (array_write a v w2) = (q2, c2, v2)"
      by (cases "calculate_expectation G X a h cb (array_write a v w2)")
    have "fst (estimator_run X (est_state (array_write a v w1)) (ansatz_template G) h
                 (arrays (array_write a v w1) a))
        = fst (estimator_run X (est_state (array_write a v w2)) (ansatz_template G) h
                 (arrays (array_write a v w2) a))"
      by (simp add: det[of "est_state w1" v "est_state w2"])
    from calculate_expectation_same_value[OF this, of cb] ce1 ce2
    have q: "q1 = q2" "c1 = c2" by simp_all
    show ?thesis
    proof (cases q1)
      case (Inl e)
      with q Suc.prems Some av ce1 ce2 show ?thesis by auto
    next
      case (Inr y)
      with q Suc.prems Some av ce1 ce2
      have "minimize_loop G X n x0 h (es @ [y]) c1 v1 = (r1, es1, cb1, u1)"
           "minimize_loop G X n x0 h (es @ [y]) c1 v2 = (r2, es2, cb2, u2)" by auto
      then show ?thesis by (rule Suc.IH)
    qed
  qed
qed

lemma minimize_deterministic:
  assumes det: "\<And>s s' p. fst (estimator_run X s (ansatz_template G) h p)
                        = fst (estimator_run X s' (ansatz_template G) h p)"
  shows "fst (minimize G X x0 h cb n w1) = fst (minimize G X x0 h cb n w2)
       \<and> fst (snd (minimize G X x0 h cb n w1)) = fst (snd (minimize G X x0 h cb n w2))"
proof -
  obtain r1 es1 cb1 u1 where l1: "minimize_loop G X n x0 h [] cb w1 = (r1, es1, cb1, u1)"
    by (cases "minimize_loop G X n x0 h [] cb w1") auto
  obtain r2 es2 cb2 u2 where l2: "minimize_loop G X n x0 h [] cb w2 = (r2, es2, cb2, u2)"
    by (cases "minimize_loop G X n x0 h [] cb w2") auto
  from minimize_loop_deterministic[OF det l1 l2] l1 l2
  show ?thesis by (simp add: minimize_def split: option.splits)
qed

lemma vqe_setup_same_draw:
  "map (rand_stream X) [rng_pos w1 ..< rng_pos w1 + nat (num_params G)]
     = map (rand_stream X) [rng_pos w2 ..< rng_pos w2 + nat (num_params G)] \<Longrightarrow>
   fst (vqe_setup G X w1) = fst (vqe_setup G X w2)"
  by (simp add: vqe_setup_def np_random_rand_def Let_def)

lemma vqe_optimization_deterministic:
  assumes det: "\<And>s s' p. fst (estimator_run X s (ansatz_template G) h p)
                        = fst (estimator_run X s' (ansatz_template G) h p)"
    and draw: "map (rand_stream X) [rng_pos w1 ..< rng_pos w1 + nat (num_params G)]
                = map (rand_stream X) [rng_pos w2 ..< rng_pos w2 + nat (num_params G)]"
  shows "fst (vqe_optimization G X h w1) = fst (vqe_optimization G X h w2)"
proof -
  obtain q1 u1 where s1: "vqe_setup G X w1 = (q1, u1)" by (cases "vqe_setup G X w1")
  obtain q2 u2 where s2: "vqe_setup G X w2 = (q2, u2)" by (cases "vqe_setup G X w2")
  from vqe_setup_same_draw[OF draw] s1 s2 have q: "q2 = q1" by simp
  show ?thesis
  proof (cases q1)
    case (Inl e)
    with s1 s2 q show ?thesis by (simp add: vqe_optimization_def)
  next
    case (Inr p)
    obtain x0 cb where p: "p = (x0, cb)" by (cases p)
    from minimize_deterministic[OF det, of x0 cb 200 "snd (time_time X u1)" "snd (time_time X u2)"]
    show ?thesis using s1 s2 q Inr p
      by (auto simp: vqe_optimization_def Let_def split: prod.splits sum.splits)
  qed
qed

section \<open>Evaluating the concrete instance\<close>

lemma shipped_num_params: "num_params shipped_globals = 5"
  by (simp add: shipped_globals_def)

lemma shipped_num_parameters: "num_parameters (ansatz_template shipped_globals) = 5"
  by (simp add: shipped_globals_def num_parameters_def theta_name_def str_nat.simps digit_char_def)

lemma module_load_shipped: "module_load = Inr shipped_globals"
  by (simp add: module_load_def uccsd_ansatz_def theta_list_def shipped_globals_def upt_rec
      eval_nat_numeral)

lemma minimize_loop_pos:
  "0 < n \<Longrightarrow> minimize_loop G X n x0 h es cb w =
     (case cobyla_next X x0 es of
        None \<Rightarrow> (None, es, cb, w)
      | Some (a, v) \<Rightarrow>
          (case calculate_expectation G X a h cb (array_write a v w) of
             (Inl e, cb', w') \<Rightarrow> (Some e, es, cb', w')
           | (Inr y, cb', w') \<Rightarrow> minimize_loop G X (n - 1) x0 h (es @ [y]) cb' w'))"
  by (cases n) (auto split: option.splits prod.splits sum.splits)

lemma str_int_small: "str_int 5 = ''5''" "str_int 4 = ''4''" "str_int 10 = ''10''"
  by (simp_all add: str_int_def str_nat.simps digit_char_def)

lemma example_call:
  "calculate_expectation shipped_globals example_externals 0 () empty_callback_dict
      (array_write 0 [1, 2] example_world)
   = (Inr 3, \<lparr>cb_params = [0], cb_energy = [3]\<rparr>,
      \<lparr>iteration_count = 1, arrays = (\<lambda>a. [])(0 := [1, 2]), est_state = 1, est_calls = 1,
       rng_pos = 0, clock_pos = 0, stdout = []\<rparr>)"
  by (simp add: calculate_expectation_def example_externals_def example_world_def
      empty_callback_dict_def array_write_def Let_def)

lemma example_tenth_call:
  "calculate_expectation shipped_globals example_externals 0 () empty_callback_dict
      (example_world\<lparr>iteration_count := 9\<rparr>)
   = (Inr 0, \<lparr>cb_params = [0], cb_energy = [0]\<rparr>,
      \<lparr>iteration_count = 10, arrays = (\<lambda>a. []), est_state = 1, est_calls = 1,
       rng_pos = 0, clock_pos = 0, stdout = [''Iteration: 10, Energy: E, Params: A'']\<rparr>)"
  by (simp add: calculate_expectation_def example_externals_def example_world_def
      empty_callback_dict_def Let_def print_def str_int_small)



lemma example_setup:
  "vqe_setup shipped_globals example_externals example_world
   = (Inr ([pi, pi, pi, pi, pi], \<lparr>cb_params = [], cb_energy = []\<rparr>),
      \<lparr>iteration_count = 0, arrays = (\<lambda>a. []), est_state = 0, est_calls = 0,
       rng_pos = 5, clock_pos = 0,
       stdout = [''Number of parameters in ansatz: 5'',
                 ''Number of parameters for optimizer: 5'',
                 ''Initial parameters: A'']\<rparr>)"
  by (simp add: vqe_setup_def np_random_rand_def shipped_num_parameters shipped_num_params
      Let_def print_def example_externals_def example_world_def upt_rec str_int_small)

lemma example_run:
  "vqe_optimization shipped_globals example_externals () example_world
   = (Inr \<lparr>res_x = [pi, pi, pi, pi, pi], res_fun = 5 * pi,
           intermediate_info = Some \<lparr>cb_params = [0, 0], cb_energy = [5 * pi, 5 * pi + 5]\<rparr>\<rparr>,
      \<lparr>iteration_count = 2,
       arrays = (\<lambda>a. [])(0 := [pi + 1, pi + 1, pi + 1, pi + 1, pi + 1]),
       est_state = 2, est_calls = 2, rng_pos = 5, clock_pos = 2,
       stdout = [''Number of parameters in ansatz: 5'',
                 ''Number of parameters for optimizer: 5'',
                 ''Initial parameters: A'',
                 CHR 0x0A # ''Optimization finished in T seconds.'']\<rparr>)"
  by (simp add: vqe_optimization_def vqe_setup_def np_random_rand_def shipped_num_parameters
      shipped_num_params minimize_def minimize_loop_pos calculate_expectation_def print_def
      time_time_def Let_def example_externals_def example_world_def array_write_def upt_rec
      str_int_small)

lemma example_mismatch_run:
  "vqe_optimization reassigned_globals example_externals () example_world
   = (Inl AssertionError,
      \<lparr>iteration_count = 0, arrays = (\<lambda>a. []), est_state = 0, est_calls = 0,
       rng_pos = 4, clock_pos = 0,
       stdout = [''Number of parameters in ansatz: 5'',
                 ''Number of parameters for optimizer: 4'']\<rparr>)"
  by (simp add: vqe_optimization_def vqe_setup_def np_random_rand_def reassigned_globals_def
      shipped_num_parameters shipped_num_params print_def Let_def example_world_def str_int_small)

lemma example_prob_uniform:
  assumes "0 \<le> a" "a \<le> b" "b \<le> 1"
  shows "example_prob {\<omega>. a \<le> rand_stream (example_random_externals \<omega>) i
                          \<and> rand_stream (example_random_externals \<omega>) i < b} = b - a"
proof -
  have s: "{\<omega>. a \<le> rand_stream (example_random_externals \<omega>) i
               \<and> rand_stream (example_random_externals \<omega>) i < b} \<inter> {0..<1} = {a..<b}"
    using assms by (auto simp: example_random_externals_def)
  show ?thesis
  proof (cases "a < b")
    case True
    then show ?thesis
      unfolding example_prob_def s by simp
  next
    case False
    with assms have "a = b" by simp
    then show ?thesis unfolding example_prob_def s by simp
  qed
qed

section \<open>Further facts used below\<close>

text \<open>Nothing but the final \<^verbatim>\<open>print\<close> depends on the clock.\<close>

lemma calculate_expectation_clock:
  "calculate_expectation G (X\<lparr>time_stream := c\<rparr>) a h cb w = calculate_expectation G X a h cb w"
  by (simp add: calculate_expectation_def Let_def split: option.splits)

lemma minimize_loop_clock:
  "minimize_loop G (X\<lparr>time_stream := c\<rparr>) n x0 h es cb w = minimize_loop G X n x0 h es cb w"
  by (induction n arbitrary: es cb w)
     (simp_all add: calculate_expectation_clock split: option.splits prod.splits sum.splits)

lemma vqe_optimization_clock:
  "fst (vqe_optimization G (X\<lparr>time_stream := c\<rparr>) h w) = fst (vqe_optimization G X h w)"
proof -
  have s: "vqe_setup G (X\<lparr>time_stream := c\<rparr>) w = vqe_setup G X w"
    by (simp add: vqe_setup_def np_random_rand_def Let_def)
  have t: "snd (time_time (X\<lparr>time_stream := c\<rparr>) u) = snd (time_time X u)" for u
    by (simp add: time_time_def)
  have m: "minimize G (X\<lparr>time_stream := c\<rparr>) x0 h cb n u = minimize G X x0 h cb n u" for x0 cb n u
    by (simp add: minimize_def minimize_loop_clock split: option.splits prod.splits)
  show ?thesis
    by (simp add: vqe_optimization_def s t m Let_def split: prod.splits sum.splits)
qed

text \<open>
  The optimizer loop ends with an exception only when a call of the estimator raised.
\<close>

lemma minimize_loop_raise:
  "minimize_loop G X n x0 h es cb w = (Some e, es', cb', w') \<Longrightarrow>
     e = EstimatorError \<and> (\<exists>s p. fst (estimator_run X s (ansatz_template G) h p) = None)"
proof (induction n arbitrary: es cb w)
  case 0
  then show ?case by simp
next
  case (Suc n)
  show ?case
  proof (cases "cobyla_next X x0 es")
    case None
    with Suc.prems show ?thesis by simp
  next
    case (Some av)
    obtain a v where av: "av = (a, v)" by (cases av)
    obtain res cb1 w1 where
      ce: "calculate_expectation G X a h cb (array_write a v w) = (res, cb1, w1)"
      by (cases "calculate_expectation G X a h cb (array_write a v w)")
    show ?thesis
    proof (cases res)
      case (Inl e0)
      from calculate_expectation_raises[OF ce[unfolded Inl]] Suc.prems Some av ce Inl
      show ?thesis by auto
    next
      case (Inr y)
      from Suc.prems Some av ce Inr
      have "minimize_loop G X n x0 h (es @ [y]) cb1 w1 = (Some e, es', cb', w')" by simp
      then show ?thesis by (rule Suc.IH)
    qed
  qed
qed

text \<open>The dense matrix of the Hamiltonian and its eigenvalues.\<close>

lemma to_matrix_hamiltonian_op:
  "to_matrix hamiltonian_op =
     Some [[- 0.64, 0, 0, 0.09], [0, - 0.98, 0, 0], [0, 0, - 0.98, 0], [0.09, 0, 0, - 0.64]]"
  by (simp add: to_matrix_def hamiltonian_op_def from_list_def pauli_list_def pauli_matrix_def
      kron_def mat_add_def mat_scale_def zero_matrix_def eval_nat_numeral)

lemma length_four: "length v = 4 \<Longrightarrow> \<exists>a b c d. v = [a, b, c, d]"
  by (auto simp: length_Suc_conv eval_nat_numeral)

lemma of_real_cases:
  "complex_of_real r = - 0.98 \<Longrightarrow> r = - 0.98"
  "complex_of_real r = - 0.73 \<Longrightarrow> r = - 0.73"
  "complex_of_real r = - 0.55 \<Longrightarrow> r = - 0.55"
  by (drule arg_cong[where f = Re], simp)+

lemma eigen_upper:
  assumes "eigenvalue [[- 0.64, 0, 0, 0.09], [0, - 0.98, 0, 0], [0, 0, - 0.98, 0], [0.09, 0, 0, - 0.64]]
             (complex_of_real r)"
  shows "r = - 0.98 \<or> r = - 0.73 \<or> r = - 0.55"
proof -
  define l where "l = complex_of_real r"
  let ?A = "[[- 0.64, 0, 0, 0.09], [0, - 0.98, 0, 0], [0, 0, - 0.98, 0], [0.09, 0, 0, - 0.64]] :: matrix"
  from assms obtain v where raw: "length v = length ?A" "v \<noteq> replicate (length ?A) 0"
    and mv: "mat_vec ?A v = map (\<lambda>x. l * x) v"
    unfolding eigenvalue_def l_def by blast
  from raw have v: "length v = 4" "v \<noteq> replicate 4 0" by (simp_all add: eval_nat_numeral)
  from length_four[OF v(1)] obtain a b c d where abcd: "v = [a, b, c, d]" by blast
  from mv abcd have
    e1: "- 0.64 * a + 0.09 * d = l * a" and
    e2: "- 0.98 * b = l * b" and
    e3: "- 0.98 * c = l * c" and
    e4: "0.09 * a - 0.64 * d = l * d"
    by (simp_all add: mat_vec_def)
  from v(2) abcd have nz: "a \<noteq> 0 \<or> b \<noteq> 0 \<or> c \<noteq> 0 \<or> d \<noteq> 0"
    by (auto simp: eval_nat_numeral)
  have "l = - 0.98 \<or> l = - 0.73 \<or> l = - 0.55"
  proof (cases "b \<noteq> 0 \<or> c \<noteq> 0")
    case True
    have "(l + 0.98) * b = l * b - (- 0.98 * b)" "(l + 0.98) * c = l * c - (- 0.98 * c)"
      by (simp_all add: algebra_simps)
    then have "(l + 0.98) * b = 0" "(l + 0.98) * c = 0"
      unfolding e2 e3 by simp_all
    with True have "l + 0.98 = 0" by auto
    then have "l = - 0.98" by (simp add: add_eq_0_iff2)
    then show ?thesis by simp
  next
    case False
    with nz have ad: "a \<noteq> 0 \<or> d \<noteq> 0" by blast
    have "(l + 0.55) * (a + d)
            = (l * a - (- 0.64 * a + 0.09 * d)) + (l * d - (0.09 * a - 0.64 * d))"
      by (simp add: algebra_simps)
    then have s: "(l + 0.55) * (a + d) = 0" unfolding e1 e4 by simp
    have "(l + 0.73) * (a - d)
            = (l * a - (- 0.64 * a + 0.09 * d)) - (l * d - (0.09 * a - 0.64 * d))"
      by (simp add: field_simps)
    then have t: "(l + 0.73) * (a - d) = 0" unfolding e1 e4 by simp
    show ?thesis
    proof (cases "a + d = 0")
      case True
      with ad have "a - d \<noteq> 0" by auto
      with t have "l + 0.73 = 0" by simp
      then have "l = - 0.73" by (simp add: add_eq_0_iff2)
      then show ?thesis by simp
    next
      case False
      with s have "l + 0.55 = 0" by simp
      then have "l = - 0.55" by (simp add: add_eq_0_iff2)
      then show ?thesis by simp
    qed
  qed
  then show ?thesis unfolding l_def using of_real_cases by blast
qed

lemma eigen_lower:
  "eigenvalue [[- 0.64, 0, 0, 0.09], [0, - 0.98, 0, 0], [0, 0, - 0.98, 0], [0.09, 0, 0, - 0.64]]
     (complex_of_real (- 0.98))"
  unfolding eigenvalue_def
  by (rule exI[of _ "[0, 1, 0, 0]"]) (simp add: mat_vec_def eval_nat_numeral)

lemma eigen_other:
  "eigenvalue [[- 0.64, 0, 0, 0.09], [0, - 0.98, 0, 0], [0, 0, - 0.98, 0], [0.09, 0, 0, - 0.64]]
     (complex_of_real (- 0.73))"
  "eigenvalue [[- 0.64, 0, 0, 0.09], [0, - 0.98, 0, 0], [0, 0, - 0.98, 0], [0.09, 0, 0, - 0.64]]
     (complex_of_real (- 0.55))"
  unfolding eigenvalue_def
  by (rule exI[of _ "[1, 0, 0, - 1]"], simp add: mat_vec_def eval_nat_numeral,
      rule exI[of _ "[1, 0, 0, 1]"], simp add: mat_vec_def eval_nat_numeral)

lemma eigh_values_hamiltonian:
  "eigh_values [[- 0.64, 0, 0, 0.09], [0, - 0.98, 0, 0], [0, 0, - 0.98, 0], [0.09, 0, 0, - 0.64]]
     = {- 0.98, - 0.73, - 0.55}"
  unfolding eigh_values_def
  using eigen_upper eigen_lower eigen_other by blast

section \<open>The claims\<close>

text \<open>
  Claim C1, as amended. The record appended by a call of the objective function holds
  the parameter array the optimizer passed in, by reference and not as a copy: read
  right after the call, the recorded parameters are the contents the array had at the
  call; a later write to any array that is not in the history leaves every recorded
  vector unchanged; a later write to the passed array itself is what the history then
  shows for that evaluation.
\<close>

theorem recorded_params_by_reference:
  "calculate_expectation G X params h cb w = (Inr y, cb', w') \<Longrightarrow>
     cb_params cb' = cb_params cb @ [params]
     \<and> recorded_params cb' w' = recorded_params cb w @ [arrays w params]
     \<and> (a \<notin> set (cb_params cb') \<longrightarrow>
           recorded_params cb' (array_write a v w') = recorded_params cb' w')
     \<and> last (recorded_params cb' (array_write params v w')) = v"
  by (auto simp: recorded_params_def dest!: calculate_expectation_returns)

text \<open>The theorem at a concrete call, with a later write to another array.\<close>

theorem recorded_params_by_reference_witness:
  "calculate_expectation shipped_globals example_externals 0 () empty_callback_dict
      (array_write 0 [1, 2] example_world)
   = (Inr 3, \<lparr>cb_params = [0], cb_energy = [3]\<rparr>,
      \<lparr>iteration_count = 1, arrays = (\<lambda>a. [])(0 := [1, 2]), est_state = 1, est_calls = 1,
       rng_pos = 0, clock_pos = 0, stdout = []\<rparr>)
   \<and> recorded_params \<lparr>cb_params = [0], cb_energy = [3]\<rparr>
        (array_write 7 [9, 9]
          \<lparr>iteration_count = 1, arrays = (\<lambda>a. [])(0 := [1, 2]), est_state = 1, est_calls = 1,
           rng_pos = 0, clock_pos = 0, stdout = []\<rparr>) = [[1, 2]]"
  using recorded_params_by_reference[OF example_call, of 7 "[9, 9]"] example_call
  by (simp add: recorded_params_def)

text \<open>
  Claim C1 as stated fails: after a call on the array at address 0 holding \<open>[1, 2]\<close>, the
  optimizer overwrites that array with \<open>[9, 9]\<close>, and the history shows \<open>[9, 9]\<close> for
  the evaluation that was made at \<open>[1, 2]\<close>.
\<close>

theorem recorded_params_snapshot_counterexample:
  "recorded_params
     (fst (snd (calculate_expectation shipped_globals example_externals 0 ()
                  empty_callback_dict (array_write 0 [1, 2] example_world))))
     (snd (snd (calculate_expectation shipped_globals example_externals 0 ()
                  empty_callback_dict (array_write 0 [1, 2] example_world)))) = [[1, 2]]
   \<and> recorded_params
     (fst (snd (calculate_expectation shipped_globals example_externals 0 ()
                  empty_callback_dict (array_write 0 [1, 2] example_world))))
     (array_write 0 [9, 9]
        (snd (snd (calculate_expectation shipped_globals example_externals 0 ()
                  empty_callback_dict (array_write 0 [1, 2] example_world))))) = [[9, 9]]"
  by (simp add: example_call recorded_params_def)

text \<open>
  Claim C2, as amended. The history is empty at the start of every run: the dictionary
  is created by the run itself. The evaluation counter is the module-level variable of
  line 88, set to 0 once when that cell is executed; a run neither resets nor owns it.
  At the start of a run the counter has the value in which the previous run left it, and
  a run that returns leaves it increased by the number of its evaluations.
\<close>

theorem history_fresh_counter_carried_over:
  "iteration_count (module_init w0) = 0
   \<and> (vqe_setup G X w = (Inr (x0, cb), w1) \<longrightarrow>
         cb_params cb = [] \<and> cb_energy cb = [] \<and> iteration_count w1 = iteration_count w)
   \<and> (vqe_optimization G X h w = (Inr r, w') \<longrightarrow>
         (\<exists>as es. intermediate_info r = Some \<lparr>cb_params = as, cb_energy = es\<rparr>
            \<and> iteration_count w' = iteration_count w + int (length es)))"
proof -
  have a: "iteration_count (module_init w0) = 0" by (simp add: module_init_def)
  have b: "cb_params cb = [] \<and> cb_energy cb = [] \<and> iteration_count w1 = iteration_count w"
    if "vqe_setup G X w = (Inr (x0, cb), w1)"
    using vqe_setup_returns[OF that] by simp
  have c: "\<exists>as es. intermediate_info r = Some \<lparr>cb_params = as, cb_energy = es\<rparr>
            \<and> iteration_count w' = iteration_count w + int (length es)"
    if "vqe_optimization G X h w = (Inr r, w')"
    using vqe_optimization_returns[OF that] by blast
  from a b c show ?thesis by blast
qed

text \<open>The theorem at the first run of the concrete instance.\<close>

theorem history_fresh_counter_carried_over_witness:
  "vqe_setup shipped_globals example_externals example_world
   = (Inr ([pi, pi, pi, pi, pi], \<lparr>cb_params = [], cb_energy = []\<rparr>),
      \<lparr>iteration_count = 0, arrays = (\<lambda>a. []), est_state = 0, est_calls = 0,
       rng_pos = 5, clock_pos = 0,
       stdout = [''Number of parameters in ansatz: 5'',
                 ''Number of parameters for optimizer: 5'',
                 ''Initial parameters: A'']\<rparr>)
   \<and> vqe_optimization shipped_globals example_externals () example_world
   = (Inr \<lparr>res_x = [pi, pi, pi, pi, pi], res_fun = 5 * pi,
           intermediate_info = Some \<lparr>cb_params = [0, 0], cb_energy = [5 * pi, 5 * pi + 5]\<rparr>\<rparr>,
      \<lparr>iteration_count = 2,
       arrays = (\<lambda>a. [])(0 := [pi + 1, pi + 1, pi + 1, pi + 1, pi + 1]),
       est_state = 2, est_calls = 2, rng_pos = 5, clock_pos = 2,
       stdout = [''Number of parameters in ansatz: 5'',
                 ''Number of parameters for optimizer: 5'',
                 ''Initial parameters: A'',
                 CHR 0x0A # ''Optimization finished in T seconds.'']\<rparr>)
   \<and> (0::int) = iteration_count example_world
   \<and> (2::int) = iteration_count example_world + int (length [5 * pi, 5 * pi + 5])"
  using history_fresh_counter_carried_over[where G = shipped_globals and X = example_externals
          and w = example_world and h = "()" and ?w0.0 = example_world
          and ?x0.0 = "[pi, pi, pi, pi, pi]" and cb = "\<lparr>cb_params = [], cb_energy = []\<rparr>"]
        example_setup example_run
  by (simp add: example_world_def)

text \<open>
  Claim C2 as stated fails: the counter is 0 after the module is loaded, and at the start
  of a second run in the same process, before its first objective call, it is 2, the
  number of evaluations of the first run.
\<close>

theorem counter_zero_at_run_start_counterexample:
  "iteration_count (module_init example_world) = 0
   \<and> iteration_count
       (snd (vqe_setup shipped_globals example_externals
              (snd (vqe_optimization shipped_globals example_externals ()
                      (module_init example_world))))) = 2"
  by (simp add: module_init_def example_world_def example_run[unfolded example_world_def]
      vqe_setup_def np_random_rand_def shipped_num_parameters shipped_num_params print_def
      Let_def)

text \<open>
  Claim C3, as amended. When the parameter count of the ansatz differs from the
  configured one, the run fails at the \<^verbatim>\<open>assert\<close> of line 148 with an
  \<^verbatim>\<open>AssertionError\<close>. The check is not the first step: by then the initial parameter
  vector has been drawn (\<^verbatim>\<open>num_params\<close> samples are consumed) and the two counts have
  been printed, and nothing else. For a negative configured count the draw itself fails
  with a \<^verbatim>\<open>ValueError\<close>, and nothing is drawn or printed. In both cases the failure
  comes before any oracle call: the oracle call count and the evaluation counter are as
  before the run.
\<close>

theorem mismatch_fails_before_any_oracle_call:
  "num_parameters (ansatz_template G) \<noteq> num_params G \<Longrightarrow>
     fst (vqe_optimization G X h w)
       = Inl (if num_params G < 0 then ValueError else AssertionError)
     \<and> est_calls (snd (vqe_optimization G X h w)) = est_calls w
     \<and> iteration_count (snd (vqe_optimization G X h w)) = iteration_count w
     \<and> rng_pos (snd (vqe_optimization G X h w)) = rng_pos w + nat (num_params G)
     \<and> stdout (snd (vqe_optimization G X h w)) = stdout w @
         (if num_params G < 0 then []
          else [''Number of parameters in ansatz: ''
                  @ str_int (num_parameters (ansatz_template G)),
                ''Number of parameters for optimizer: '' @ str_int (num_params G)])"
proof -
  assume mm: "num_parameters (ansatz_template G) \<noteq> num_params G"
  from vqe_setup_mismatch[OF mm] obtain w1 where
    s: "vqe_setup G X w = (Inl (if num_params G < 0 then ValueError else AssertionError), w1)"
    by blast
  from vqe_setup_raises[OF s] vqe_setup_raises_stdout[OF s]
       vqe_optimization_raises_in_setup[OF s, of h]
  show ?thesis by simp
qed

text \<open>The theorem at the module with \<^verbatim>\<open>num_params\<close> reassigned to 4.\<close>

theorem mismatch_fails_before_any_oracle_call_witness:
  "num_parameters (ansatz_template reassigned_globals) \<noteq> num_params reassigned_globals
   \<and> fst (vqe_optimization reassigned_globals example_externals () example_world)
       = Inl AssertionError
   \<and> est_calls (snd (vqe_optimization reassigned_globals example_externals () example_world)) = 0
   \<and> stdout (snd (vqe_optimization reassigned_globals example_externals () example_world))
       = [''Number of parameters in ansatz: 5'', ''Number of parameters for optimizer: 4'']"
proof -
  have mm: "num_parameters (ansatz_template reassigned_globals) \<noteq> num_params reassigned_globals"
    by (simp add: reassigned_globals_def shipped_num_parameters)
  from mismatch_fails_before_any_oracle_call[OF mm, of example_externals "()" example_world] mm
  show ?thesis
    by (simp add: reassigned_globals_def example_world_def shipped_num_parameters str_int_small)
qed

text \<open>
  Claim C3 as stated fails: the failed run has taken four samples from the generator,
  so the initial parameter vector was drawn before the check.
\<close>

theorem check_before_draw_counterexample:
  "rng_pos example_world = 0
   \<and> fst (vqe_optimization reassigned_globals example_externals () example_world)
       = Inl AssertionError
   \<and> rng_pos (snd (vqe_optimization reassigned_globals example_externals () example_world)) = 4"
  by (simp add: example_mismatch_run) (simp add: example_world_def)




text \<open>
  Claim C5. With the counter never negative, an invocation that returns prints a progress
  line if and only if its counter value, after the increment, is a positive multiple of
  10; the line holds the counter, the energy formatted with six decimals and the
  parameters rounded to three decimals. The value returned is the estimator's value,
  whether or not a line is printed. (An invocation in which the estimator raises prints
  nothing.)
\<close>

theorem progress_every_tenth_evaluation:
  "calculate_expectation G X params h cb w = (r, cb', w') \<Longrightarrow> 0 \<le> iteration_count w \<Longrightarrow>
     iteration_count w' = iteration_count w + 1
     \<and> r = (case fst (estimator_run X (est_state w) (ansatz_template G) h (arrays w params)) of
              None \<Rightarrow> Inl EstimatorError | Some y \<Rightarrow> Inr y)
     \<and> stdout w' = stdout w @
         (case r of
            Inl e \<Rightarrow> []
          | Inr y \<Rightarrow>
              if (\<exists>k. 0 < k \<and> iteration_count w' = 10 * k)
              then [''Iteration: '' @ str_int (iteration_count w') @ '', Energy: '' @ fmt_6f X y
                    @ '', Params: '' @ str_array X (np_round3 X (arrays w params))]
              else [])"
proof -
  assume ce: "calculate_expectation G X params h cb w = (r, cb', w')"
    and nn: "0 \<le> iteration_count w"
  have m: "(\<exists>k. 0 < k \<and> iteration_count w + 1 = 10 * k)
             \<longleftrightarrow> (iteration_count w + 1) mod 10 = 0"
    using nn by presburger
  from ce show ?thesis
    unfolding calculate_expectation_def Let_def print_def
    by (auto simp: m split: option.splits if_splits)
qed

text \<open>The theorem at the tenth evaluation of the concrete instance.\<close>

theorem progress_every_tenth_evaluation_witness:
  "calculate_expectation shipped_globals example_externals 0 () empty_callback_dict
      (example_world\<lparr>iteration_count := 9\<rparr>)
   = (Inr 0, \<lparr>cb_params = [0], cb_energy = [0]\<rparr>,
      \<lparr>iteration_count = 10, arrays = (\<lambda>a. []), est_state = 1, est_calls = 1,
       rng_pos = 0, clock_pos = 0, stdout = [''Iteration: 10, Energy: E, Params: A'']\<rparr>)
   \<and> 0 \<le> iteration_count (example_world\<lparr>iteration_count := 9\<rparr>)
   \<and> (\<exists>k. 0 < k \<and> (10::int) = 10 * k)"
  using progress_every_tenth_evaluation[OF example_tenth_call] example_tenth_call
  by (simp add: example_world_def)

text \<open>
  Claim C6. For the 2-qubit Hamiltonian with the terms II: -0.81, ZZ: 0.17, XX: 0.045 and
  YY: -0.045, the least eigenvalue of its 4 by 4 dense matrix, which is what lines 234 to
  238 compute, is -0.98. (Over the reals; the rounding of the floating-point
  eigen-decomposition is outside the model.)
\<close>

theorem exact_ground_state_energy_value: "exact_ground_state_energy = Some (- 0.98)"
  by (simp only: exact_ground_state_energy_def to_matrix_hamiltonian_op option.map
        eigh_values_hamiltonian) simp

text \<open>
  Claim C7, as amended. The result of a run that returns holds the optimized parameter
  vector and the final energy reported by the minimizer, and the complete history of the
  run, one entry per objective call (as many as estimator calls were made). The elapsed
  wall-clock duration is not in the result: it is printed on the last line of the
  output, and the result is the same whatever the clock reads.
\<close>

theorem result_holds_point_energy_history:
  "vqe_optimization G X h w = (Inr r, w') \<Longrightarrow>
     (\<exists>es as. intermediate_info r = Some \<lparr>cb_params = as, cb_energy = es\<rparr>
         \<and> length as = length es
         \<and> length es = est_calls w' - est_calls w
         \<and> res_x r = fst (cobyla_result X (map (\<lambda>u. u * 2 * pi)
              (map (rand_stream X) [rng_pos w ..< rng_pos w + nat (num_params G)])) es)
         \<and> res_fun r = snd (cobyla_result X (map (\<lambda>u. u * 2 * pi)
              (map (rand_stream X) [rng_pos w ..< rng_pos w + nat (num_params G)])) es))
     \<and> last (stdout w') = CHR 0x0A # ''Optimization finished in ''
          @ fmt_2f X (elapsed X w w') @ '' seconds.''
     \<and> fst (vqe_optimization G (X\<lparr>time_stream := clock\<rparr>) h w) = Inr r"
proof -
  assume run: "vqe_optimization G X h w = (Inr r, w')"
  from vqe_optimization_returns[OF run] obtain es as where
    f: "intermediate_info r = Some \<lparr>cb_params = as, cb_energy = es\<rparr>"
       "length as = length es"
       "res_x r = fst (cobyla_result X (map (\<lambda>u. u * 2 * pi)
              (map (rand_stream X) [rng_pos w ..< rng_pos w + nat (num_params G)])) es)"
       "res_fun r = snd (cobyla_result X (map (\<lambda>u. u * 2 * pi)
              (map (rand_stream X) [rng_pos w ..< rng_pos w + nat (num_params G)])) es)"
       "est_calls w' = est_calls w + length es"
       "clock_pos w' = clock_pos w + 2"
       "last (stdout w') = CHR 0x0A # ''Optimization finished in ''
              @ fmt_2f X (time_stream X (Suc (clock_pos w)) - time_stream X (clock_pos w))
              @ '' seconds.''"
    by blast
  have e: "elapsed X w w' = time_stream X (Suc (clock_pos w)) - time_stream X (clock_pos w)"
    using f(6) by (simp add: elapsed_def)
  have c: "fst (vqe_optimization G (X\<lparr>time_stream := clock\<rparr>) h w) = Inr r"
    using vqe_optimization_clock[where G = G and X = X and c = clock and h = h and w = w] run
    by simp
  from f e c show ?thesis by auto
qed

text \<open>The theorem at the run of the concrete instance and a faster clock.\<close>

theorem result_holds_point_energy_history_witness:
  "vqe_optimization shipped_globals example_externals () example_world
   = (Inr \<lparr>res_x = [pi, pi, pi, pi, pi], res_fun = 5 * pi,
           intermediate_info = Some \<lparr>cb_params = [0, 0], cb_energy = [5 * pi, 5 * pi + 5]\<rparr>\<rparr>,
      \<lparr>iteration_count = 2,
       arrays = (\<lambda>a. [])(0 := [pi + 1, pi + 1, pi + 1, pi + 1, pi + 1]),
       est_state = 2, est_calls = 2, rng_pos = 5, clock_pos = 2,
       stdout = [''Number of parameters in ansatz: 5'',
                 ''Number of parameters for optimizer: 5'',
                 ''Initial parameters: A'',
                 CHR 0x0A # ''Optimization finished in T seconds.'']\<rparr>)
   \<and> fst (vqe_optimization shipped_globals example_externals_fast_clock () example_world)
     = Inr \<lparr>res_x = [pi, pi, pi, pi, pi], res_fun = 5 * pi,
           intermediate_info = Some \<lparr>cb_params = [0, 0], cb_energy = [5 * pi, 5 * pi + 5]\<rparr>\<rparr>"
  using result_holds_point_energy_history[of shipped_globals example_externals "()"
          example_world _ _ "\<lambda>i. 3 * real i"] example_run
  by (simp add: example_externals_fast_clock_def)

text \<open>
  Claim C7 as stated fails: two runs that differ only in the clock return the same
  result object, and their durations are 1 and 3 seconds, so the duration cannot be
  read from the result.
\<close>

theorem result_contains_elapsed_counterexample:
  "fst (vqe_optimization shipped_globals example_externals () example_world)
     = fst (vqe_optimization shipped_globals example_externals_fast_clock () example_world)
   \<and> elapsed example_externals example_world
        (snd (vqe_optimization shipped_globals example_externals () example_world)) = 1
   \<and> elapsed example_externals_fast_clock example_world
        (snd (vqe_optimization shipped_globals example_externals_fast_clock () example_world)) = 3"
proof -
  have a: "fst (vqe_optimization shipped_globals example_externals_fast_clock () example_world)
         = fst (vqe_optimization shipped_globals example_externals () example_world)"
    unfolding example_externals_fast_clock_def by (rule vqe_optimization_clock)
  obtain r w' where run: "vqe_optimization shipped_globals example_externals_fast_clock ()
                            example_world = (Inr r, w')"
    using a example_run
    by (cases "vqe_optimization shipped_globals example_externals_fast_clock () example_world")
       auto
  from vqe_optimization_returns[OF run] have cp: "clock_pos w' = clock_pos example_world + 2"
    by blast
  have b: "elapsed example_externals example_world
        (snd (vqe_optimization shipped_globals example_externals () example_world)) = 1"
    by (simp add: example_run elapsed_def) (simp add: example_externals_def example_world_def)
  have c: "elapsed example_externals_fast_clock example_world
        (snd (vqe_optimization shipped_globals example_externals_fast_clock () example_world)) = 3"
  proof -
    have "elapsed example_externals_fast_clock example_world w' = 3"
      using cp by (simp add: elapsed_def example_externals_fast_clock_def
          example_externals_def example_world_def)
    then show ?thesis by (simp add: run)
  qed
  from a b c show ?thesis by simp
qed

text \<open>
  Claim C8. Every invocation of the objective function calls the estimator exactly once,
  whatever the history holds, and passes on what that call returned and the state it
  left: nothing is cached. Consequently, with an estimator whose value does not depend
  on its state, two runs whose initial draws are equal have the same outcome, and so the
  same list of energies, whatever else differs in the states they start from.
\<close>

theorem fresh_oracle_call_every_invocation:
  "est_calls (snd (snd (calculate_expectation G X a h cb w))) = Suc (est_calls w)
   \<and> fst (calculate_expectation G X a h cb w)
       = (case fst (estimator_run X (est_state w) (ansatz_template G) h (arrays w a)) of
            None \<Rightarrow> Inl EstimatorError | Some y \<Rightarrow> Inr y)
   \<and> est_state (snd (snd (calculate_expectation G X a h cb w)))
       = snd (estimator_run X (est_state w) (ansatz_template G) h (arrays w a))
   \<and> ((\<forall>s s' p. fst (estimator_run X s (ansatz_template G) h p)
                   = fst (estimator_run X s' (ansatz_template G) h p)) \<longrightarrow>
        map (rand_stream X) [rng_pos w1 ..< rng_pos w1 + nat (num_params G)]
          = map (rand_stream X) [rng_pos w2 ..< rng_pos w2 + nat (num_params G)] \<longrightarrow>
        fst (vqe_optimization G X h w1) = fst (vqe_optimization G X h w2))"
proof -
  have a: "est_calls (snd (snd (calculate_expectation G X a h cb w))) = Suc (est_calls w)"
    by (simp add: calculate_expectation_def Let_def print_def split: option.splits)
  have b: "fst (calculate_expectation G X a h cb w)
       = (case fst (estimator_run X (est_state w) (ansatz_template G) h (arrays w a)) of
            None \<Rightarrow> Inl EstimatorError | Some y \<Rightarrow> Inr y)"
    by (simp add: calculate_expectation_def Let_def split: option.splits)
  have c: "est_state (snd (snd (calculate_expectation G X a h cb w)))
       = snd (estimator_run X (est_state w) (ansatz_template G) h (arrays w a))"
    by (simp add: calculate_expectation_def Let_def print_def split: option.splits)
  have d: "fst (vqe_optimization G X h w1) = fst (vqe_optimization G X h w2)"
    if "\<forall>s s' p. fst (estimator_run X s (ansatz_template G) h p)
                  = fst (estimator_run X s' (ansatz_template G) h p)"
      and "map (rand_stream X) [rng_pos w1 ..< rng_pos w1 + nat (num_params G)]
          = map (rand_stream X) [rng_pos w2 ..< rng_pos w2 + nat (num_params G)]"
    using vqe_optimization_deterministic[of X G h w1 w2] that by blast
  from a b c d show ?thesis by blast
qed

text \<open>The theorem at two consecutive runs of the concrete instance.\<close>

theorem fresh_oracle_call_every_invocation_witness:
  "(\<forall>s s' p. fst (estimator_run example_externals s (ansatz_template shipped_globals) () p)
              = fst (estimator_run example_externals s' (ansatz_template shipped_globals) () p))
   \<and> map (rand_stream example_externals) [0 ..< 0 + nat 5]
       = map (rand_stream example_externals) [5 ..< 5 + nat 5]
   \<and> fst (vqe_optimization shipped_globals example_externals ()
           (snd (vqe_optimization shipped_globals example_externals () example_world)))
     = Inr \<lparr>res_x = [pi, pi, pi, pi, pi], res_fun = 5 * pi,
           intermediate_info = Some \<lparr>cb_params = [0, 0], cb_energy = [5 * pi, 5 * pi + 5]\<rparr>\<rparr>"
proof -
  have det:
    "\<forall>s s' p. fst (estimator_run example_externals s (ansatz_template shipped_globals) () p)
             = fst (estimator_run example_externals s' (ansatz_template shipped_globals) () p)"
    by (simp add: example_externals_def)
  have draw: "map (rand_stream example_externals) [0 ..< 0 + nat 5]
       = map (rand_stream example_externals) [5 ..< 5 + nat 5]"
    by (simp add: example_externals_def upt_rec)
  have pos: "rng_pos (snd (vqe_optimization shipped_globals example_externals () example_world)) = 5"
    "rng_pos example_world = 0"
    by (simp_all add: example_run) (simp add: example_world_def)
  from fresh_oracle_call_every_invocation[where G = shipped_globals and X = example_externals
         and h = "()" and ?w2.0 = example_world
         and ?w1.0 = "snd (vqe_optimization shipped_globals example_externals () example_world)"]
       det draw pos
  show ?thesis by (simp add: shipped_num_params example_run)
qed

text \<open>
  Claim C9. Let the generator depend on the outcome \<open>\<omega>\<close> of a random experiment and let
  \<open>P\<close> give the probability of events. With the counts equal and every sample of
  \<^verbatim>\<open>np.random.rand\<close> in \<open>[0, 1)\<close> and uniformly distributed there, the setup
  returns for every outcome an initial parameter vector of as many components as the
  configured parameter count, each in \<open>[0, 2 * pi)\<close>, the \<open>i\<close>-th being the \<open>i\<close>-th of the
  next samples scaled by \<open>2 * pi\<close>, and these samples are consumed. Every component is
  uniformly distributed on \<open>[0, 2 * pi)\<close>: it falls in \<open>[a, b)\<close> with probability
  \<open>(b - a) / (2 * pi)\<close>.
\<close>

theorem initial_params_uniform:
  assumes cnt: "num_parameters (ansatz_template G) = num_params G"
    and rng: "\<forall>\<omega> i. 0 \<le> rand_stream (X \<omega>) i \<and> rand_stream (X \<omega>) i < 1"
    and uni: "\<forall>i a b. 0 \<le> a \<longrightarrow> a \<le> b \<longrightarrow> b \<le> 1 \<longrightarrow>
                P {\<omega>. a \<le> rand_stream (X \<omega>) i \<and> rand_stream (X \<omega>) i < b} = b - a"
  shows "(\<forall>\<omega>. \<exists>x0 cb w1. vqe_setup G (X \<omega>) w = (Inr (x0, cb), w1)
            \<and> int (length x0) = num_params G
            \<and> (\<forall>x \<in> set x0. 0 \<le> x \<and> x < 2 * pi)
            \<and> (\<forall>i < length x0. x0 ! i = rand_stream (X \<omega>) (rng_pos w + i) * 2 * pi)
            \<and> rng_pos w1 = rng_pos w + length x0)
       \<and> (\<forall>i a b. int i < num_params G \<longrightarrow> 0 \<le> a \<longrightarrow> a \<le> b \<longrightarrow> b \<le> 2 * pi \<longrightarrow>
            P {\<omega>. \<exists>x0 cb w1. vqe_setup G (X \<omega>) w = (Inr (x0, cb), w1)
                     \<and> a \<le> x0 ! i \<and> x0 ! i < b} = (b - a) / (2 * pi))"
proof -
  have stp: "\<exists>x0 cb w1. vqe_setup G (X \<omega>) w = (Inr (x0, cb), w1)
            \<and> int (length x0) = num_params G
            \<and> (\<forall>x \<in> set x0. 0 \<le> x \<and> x < 2 * pi)
            \<and> (\<forall>i < length x0. x0 ! i = rand_stream (X \<omega>) (rng_pos w + i) * 2 * pi)
            \<and> rng_pos w1 = rng_pos w + length x0" for \<omega>
  proof -
    from vqe_setup_match[OF cnt] obtain x0 cb w1 where
      s: "vqe_setup G (X \<omega>) w = (Inr (x0, cb), w1)" by blast
    from vqe_setup_returns[OF s] have nn: "0 \<le> num_params G"
      and x0: "x0 = map (\<lambda>u. u * 2 * pi)
                     (map (rand_stream (X \<omega>)) [rng_pos w ..< rng_pos w + nat (num_params G)])"
      and rp: "rng_pos w1 = rng_pos w + nat (num_params G)"
      by simp_all
    have len: "int (length x0) = num_params G" using nn x0 by simp
    have inr: "0 \<le> x \<and> x < 2 * pi" if "x \<in> set x0" for x
    proof -
      from that x0 obtain i where "x = rand_stream (X \<omega>) i * 2 * pi" by auto
      moreover have "0 \<le> rand_stream (X \<omega>) i" "rand_stream (X \<omega>) i < 1"
        using rng by simp_all
      ultimately show ?thesis by simp
    qed
    have nth': "x0 ! i = rand_stream (X \<omega>) (rng_pos w + i) * 2 * pi" if "i < length x0" for i
      using that x0 by simp
    have rp': "rng_pos w1 = rng_pos w + length x0" using rp x0 by simp
    from s len inr nth' rp' show ?thesis by blast
  qed
  have prob: "P {\<omega>. \<exists>x0 cb w1. vqe_setup G (X \<omega>) w = (Inr (x0, cb), w1)
                     \<and> a \<le> x0 ! i \<and> x0 ! i < b} = (b - a) / (2 * pi)"
    if i: "int i < num_params G" and a: "0 \<le> a" and ab: "a \<le> b" and b: "b \<le> 2 * pi"
    for i a b
  proof -
    have p: "0 < 2 * pi" by simp
    have l: "a \<le> u * 2 * pi \<longleftrightarrow> a / (2 * pi) \<le> u" for u
      using p by (simp add: field_simps)
    have r: "u * 2 * pi < b \<longleftrightarrow> u < b / (2 * pi)" for u
      using p by (simp add: field_simps)
    have ev: "(\<exists>x0 cb w1. vqe_setup G (X \<omega>) w = (Inr (x0, cb), w1)
                     \<and> a \<le> x0 ! i \<and> x0 ! i < b)
          \<longleftrightarrow> a / (2 * pi) \<le> rand_stream (X \<omega>) (rng_pos w + i)
              \<and> rand_stream (X \<omega>) (rng_pos w + i) < b / (2 * pi)" for \<omega>
    proof -
      from stp[of \<omega>] obtain x0 cb w1 where
        s: "vqe_setup G (X \<omega>) w = (Inr (x0, cb), w1)"
        and len: "int (length x0) = num_params G"
        and nth': "\<forall>i < length x0. x0 ! i = rand_stream (X \<omega>) (rng_pos w + i) * 2 * pi"
        by blast
      from len i have "i < length x0" by simp
      with nth' have xi: "x0 ! i = rand_stream (X \<omega>) (rng_pos w + i) * 2 * pi" by simp
      show ?thesis using s xi by (auto simp: l r)
    qed
    have "P {\<omega>. \<exists>x0 cb w1. vqe_setup G (X \<omega>) w = (Inr (x0, cb), w1)
                     \<and> a \<le> x0 ! i \<and> x0 ! i < b}
        = P {\<omega>. a / (2 * pi) \<le> rand_stream (X \<omega>) (rng_pos w + i)
                 \<and> rand_stream (X \<omega>) (rng_pos w + i) < b / (2 * pi)}"
      by (simp only: ev)
    also have "\<dots> = b / (2 * pi) - a / (2 * pi)"
    proof -
      have "0 \<le> a / (2 * pi)" using a by simp
      moreover have "a / (2 * pi) \<le> b / (2 * pi)" using ab p by (simp add: divide_right_mono)
      moreover have "b / (2 * pi) \<le> 1" using b p by simp
      ultimately show ?thesis using uni by blast
    qed
    also have "\<dots> = (b - a) / (2 * pi)" by (simp add: diff_divide_distrib)
    finally show ?thesis .
  qed
  from stp prob show ?thesis by blast
qed

text \<open>The theorem at the concrete family of instances and the event \<open>1 \<le> x0 ! 0 < 2\<close>.\<close>

theorem initial_params_uniform_witness:
  "num_parameters (ansatz_template shipped_globals) = num_params shipped_globals
   \<and> (\<forall>\<omega> i. 0 \<le> rand_stream (example_random_externals \<omega>) i
             \<and> rand_stream (example_random_externals \<omega>) i < 1)
   \<and> example_prob {\<omega>. 0 \<le> rand_stream (example_random_externals \<omega>) 0
                       \<and> rand_stream (example_random_externals \<omega>) 0 < 1 / 4} = 1 / 4 - 0
   \<and> example_prob
        {\<omega>. \<exists>x0 cb w1. vqe_setup shipped_globals (example_random_externals \<omega>) example_world
                            = (Inr (x0, cb), w1)
                        \<and> 1 \<le> x0 ! 0 \<and> x0 ! 0 < 2} = (2 - 1) / (2 * pi)"
proof -
  have cnt: "num_parameters (ansatz_template shipped_globals) = num_params shipped_globals"
    by (simp add: shipped_num_parameters shipped_num_params)
  have rng: "\<forall>\<omega> i. 0 \<le> rand_stream (example_random_externals \<omega>) i
                  \<and> rand_stream (example_random_externals \<omega>) i < 1"
    by (simp add: example_random_externals_def)
  have uni: "\<forall>i a b. 0 \<le> a \<longrightarrow> a \<le> b \<longrightarrow> b \<le> 1 \<longrightarrow>
                example_prob {\<omega>. a \<le> rand_stream (example_random_externals \<omega>) i
                                 \<and> rand_stream (example_random_externals \<omega>) i < b} = b - a"
    using example_prob_uniform by blast
  have q: "example_prob {\<omega>. 0 \<le> rand_stream (example_random_externals \<omega>) 0
                       \<and> rand_stream (example_random_externals \<omega>) 0 < 1 / 4} = 1 / 4 - 0"
    by (rule example_prob_uniform) simp_all
  have b2: "(2::real) \<le> 2 * pi" using pi_ge_two by simp
  from initial_params_uniform[OF cnt rng uni, of example_world]
  have "example_prob
        {\<omega>. \<exists>x0 cb w1. vqe_setup shipped_globals (example_random_externals \<omega>) example_world
                            = (Inr (x0, cb), w1)
                        \<and> 1 \<le> x0 ! 0 \<and> x0 ! 0 < 2} = (2 - 1) / (2 * pi)"
    using b2 by (simp add: shipped_num_params)
  with cnt rng q show ?thesis by blast
qed

text \<open>
  Claim C10. Under the shipped configuration, \<^verbatim>\<open>num_params = 5\<close> and the ansatz built
  from five distinct parameters, the two counts are equal, so the check of line 148
  passes in every state: the setup always returns the initial vector and the empty
  dictionary, and no run ends with an \<^verbatim>\<open>AssertionError\<close>.
\<close>

theorem shipped_parameter_check_passes:
  "module_load = Inr shipped_globals
   \<and> num_parameters (ansatz_template shipped_globals) = num_params shipped_globals
   \<and> fst (vqe_setup shipped_globals X w)
       = Inr (map (\<lambda>u. u * 2 * pi) (map (rand_stream X) [rng_pos w ..< rng_pos w + 5]),
              \<lparr>cb_params = [], cb_energy = []\<rparr>)
   \<and> fst (vqe_optimization shipped_globals X h w) \<noteq> Inl AssertionError"
proof -
  have eq: "num_parameters (ansatz_template shipped_globals) = num_params shipped_globals"
    by (simp add: shipped_num_parameters shipped_num_params)
  have s: "fst (vqe_setup shipped_globals X w)
       = Inr (map (\<lambda>u. u * 2 * pi) (map (rand_stream X) [rng_pos w ..< rng_pos w + 5]),
              \<lparr>cb_params = [], cb_energy = []\<rparr>)"
    by (simp add: vqe_setup_def np_random_rand_def shipped_num_parameters shipped_num_params
        Let_def)
  have r: "fst (vqe_optimization shipped_globals X h w) \<noteq> Inl AssertionError"
  proof
    assume f: "fst (vqe_optimization shipped_globals X h w) = Inl AssertionError"
    obtain x0 cb w1 where su: "vqe_setup shipped_globals X w = (Inr (x0, cb), w1)"
      using vqe_setup_match[OF eq] by blast
    obtain m cb6 w6 where
      mi: "minimize shipped_globals X x0 h cb 200 (snd (time_time X w1)) = (m, cb6, w6)"
      by (cases "minimize shipped_globals X x0 h cb 200 (snd (time_time X w1))")
    obtain ro es cbl wl where
      lp: "minimize_loop shipped_globals X 200 x0 h [] cb (snd (time_time X w1))
             = (ro, es, cbl, wl)"
      by (cases "minimize_loop shipped_globals X 200 x0 h [] cb (snd (time_time X w1))") auto
    from f su mi have "m = Inl AssertionError"
      by (cases m) (auto simp: vqe_optimization_def Let_def)
    with mi lp have "ro = Some AssertionError"
      by (auto simp: minimize_def split: option.splits)
    with lp have "minimize_loop shipped_globals X 200 x0 h [] cb (snd (time_time X w1))
                    = (Some AssertionError, es, cbl, wl)" by simp
    from minimize_loop_raise[OF this] show False by simp
  qed
  from module_load_shipped eq s r show ?thesis by blast
qed

end
